theory Spec2Isabelle
  imports Complex_Main
begin

section \<open>Pandas sparklines: values, errors and the renderer\<close>

text \<open>
  The module \<^verbatim>\<open>sparklines.py\<close> draws one small chart per table cell with matplotlib
  and stores the chart, as an inline \<^verbatim>\<open>img\<close> tag, in a column of a pandas dataframe.
  The libraries are not part of the module. What the module asks of them is recorded:
  a figure is the list of plotting calls made on it, in order, with their arguments.
  A recorded call is taken to return: whether matplotlib rejects an option that is
  forwarded to it is not decided here. Numbers are exact rationals; rounding of floats
  is not modelled.
\<close>

subsection \<open>Python values\<close>

text \<open>
  \<open>pyval\<close>: the values that travel as keyword options and as column labels.
  \<open>elem\<close>: what a plotted sequence holds. \<open>cell\<close>: what a dataframe cell holds, either
  one scalar or a sequence.
\<close>

datatype pyval = PNone | PBool bool | PNum rat | PStr string | PTuple "rat list"

datatype elem = Num rat | Str string

datatype cell = Scalar elem | Seq "elem list"

datatype error = KeyError | TypeError | ValueError | IndexError | OSError

type_synonym kwargs = "(string \<times> pyval) list"

text \<open>Python's \<^verbatim>\<open>list(data)\<close>: a sequence gives its items, a string its characters, and
  a number is not iterable.\<close>

fun py_list :: "cell \<Rightarrow> error + elem list" where
  "py_list (Seq xs) = Inr xs"
| "py_list (Scalar (Str s)) = Inr (map (\<lambda>c. Str [c]) s)"
| "py_list (Scalar (Num r)) = Inl TypeError"

text \<open>Python's \<^verbatim>\<open><\<close> on two items: numbers by value, strings by code points, and a
  number against a string raises.\<close>

fun str_lt :: "string \<Rightarrow> string \<Rightarrow> bool" where
  "str_lt [] [] = False"
| "str_lt [] (y # ys) = True"
| "str_lt (x # xs) [] = False"
| "str_lt (x # xs) (y # ys) =
     (if (of_char x :: nat) < of_char y then True
      else if (of_char y :: nat) < of_char x then False
      else str_lt xs ys)"

fun py_lt :: "elem \<Rightarrow> elem \<Rightarrow> error + bool" where
  "py_lt (Num a) (Num b) = Inr (a < b)"
| "py_lt (Str a) (Str b) = Inr (str_lt a b)"
| "py_lt (Num a) (Str b) = Inl TypeError"
| "py_lt (Str a) (Num b) = Inl TypeError"

text \<open>Python's \<^verbatim>\<open>min(data)\<close>: ValueError on an empty list; otherwise the first item is
  the candidate and each later item replaces it when it compares smaller.\<close>

fun min_from :: "elem \<Rightarrow> elem list \<Rightarrow> error + elem" where
  "min_from m [] = Inr m"
| "min_from m (x # xs) =
     (case py_lt x m of
        Inl e \<Rightarrow> Inl e
      | Inr b \<Rightarrow> min_from (if b then x else m) xs)"

fun py_min :: "elem list \<Rightarrow> error + elem" where
  "py_min [] = Inl ValueError"
| "py_min (x # xs) = min_from x xs"

text \<open>Python's \<^verbatim>\<open>data[i]\<close> on a list of length \<open>n\<close>: the positions are \<open>0 .. n - 1\<close>,
  the index \<open>- k\<close> (for \<open>1 \<le> k \<le> n\<close>) reads position \<open>n - k\<close>, and any other index
  raises IndexError.\<close>

definition py_index :: "'a list \<Rightarrow> int \<Rightarrow> error + 'a" where
  "py_index xs i =
     (if 0 \<le> i \<and> i < int (length xs) then Inr (xs ! nat i)
      else if i < 0 \<and> - int (length xs) \<le> i then Inr (xs ! nat (int (length xs) + i))
      else Inl IndexError)"

subsection \<open>Figures\<close>

text \<open>
  The plotting calls of \<^verbatim>\<open>sparkline\<close>, one constructor each:
  \<^item> \<open>Plot data kwargs\<close> is \<^verbatim>\<open>plt.plot(data, **kwargs)\<close>;
  \<^item> \<open>AxisOff\<close> is \<^verbatim>\<open>ax.axis('off')\<close>;
  \<^item> \<open>FillBetween x y1 y2 color alpha\<close> is \<^verbatim>\<open>plt.fill_between(x, y1, y2, color=, alpha=)\<close>;
  \<^item> \<open>PlotPoint x y color marker markeredgecolor markersize alpha clip_on\<close> is the
    call \<^verbatim>\<open>plt.plot(x, y, color=, marker=, markeredgecolor=, markersize=, alpha=, clip_on=)\<close>;
  \<^item> \<open>SubplotsAdjust side v\<close> is \<^verbatim>\<open>fig.subplots_adjust(side=v)\<close>.
\<close>

datatype draw =
    Plot "elem list" kwargs
  | AxisOff
  | FillBetween "nat list" "elem list" "elem list" pyval pyval
  | PlotPoint int elem pyval pyval pyval pyval pyval bool
  | SubplotsAdjust string rat

record figure =
  fig_figsize :: pyval
  fig_calls :: "draw list"

subsection \<open>The renderer\<close>

text \<open>
  \<open>sparkline_figure\<close> is the body of \<^verbatim>\<open>sparkline\<close> up to the last
  \<^verbatim>\<open>subplots_adjust\<close>: it returns the figure that \<^verbatim>\<open>plt.savefig\<close> then writes. The
  parameters are those of the source, in the source's order. The parameters \<open>point\<close>
  and \<open>fill\<close> are received and, as in the source, read by no statement of the body.
\<close>

definition sparkline_figure ::
  "cell \<Rightarrow> pyval \<Rightarrow> pyval \<Rightarrow> pyval \<Rightarrow> pyval \<Rightarrow> pyval \<Rightarrow> pyval \<Rightarrow>
   pyval \<Rightarrow> pyval \<Rightarrow> pyval \<Rightarrow> pyval \<Rightarrow> kwargs \<Rightarrow> error + figure" where
  "sparkline_figure data0 point point_color point_marker point_fill point_size point_alpha
     fill fill_color fill_alpha figsize kwargs =
     (case py_list data0 of
        Inl e \<Rightarrow> Inl e
      | Inr data \<Rightarrow>
         (let plot_len = length data in
          case py_min data of
            Inl e \<Rightarrow> Inl e
          | Inr plot_min \<Rightarrow>
             (let point_x = int plot_len - 1 in
              case py_index data point_x of
                Inl e \<Rightarrow> Inl e
              | Inr y \<Rightarrow>
                  Inr \<lparr>fig_figsize = figsize,
                       fig_calls =
                         [Plot data kwargs,
                          AxisOff,
                          FillBetween [0..<plot_len] data (replicate plot_len plot_min)
                            fill_color fill_alpha,
                          PlotPoint point_x y point_fill point_marker point_color
                            point_size point_alpha False,
                          SubplotsAdjust ''left'' 0,
                          SubplotsAdjust ''right'' (99 / 100),
                          SubplotsAdjust ''bottom'' (1 / 10),
                          SubplotsAdjust ''top'' (9 / 10)]\<rparr>)))"

text \<open>
  The rest of \<^verbatim>\<open>sparkline\<close>: the figure is saved as PNG, base64-encoded and wrapped in
  an \<^verbatim>\<open>img\<close> tag. Rasterising and encoding are the libraries' work: \<open>png_base64\<close> is
  a parameter standing for \<^verbatim>\<open>base64.b64encode(bio.getvalue()).decode('utf-8')\<close>
  after \<^verbatim>\<open>plt.savefig(bio)\<close>.
\<close>

definition img_tag :: "string \<Rightarrow> string" where
  "img_tag payload =
     ''<img src='' @ [CHR 0x22] @ ''data:image/png;base64,'' @ payload @ [CHR 0x22] @ ''/>''"

definition sparkline ::
  "(figure \<Rightarrow> string) \<Rightarrow> cell \<Rightarrow> pyval \<Rightarrow> pyval \<Rightarrow> pyval \<Rightarrow> pyval \<Rightarrow> pyval \<Rightarrow> pyval \<Rightarrow>
   pyval \<Rightarrow> pyval \<Rightarrow> pyval \<Rightarrow> pyval \<Rightarrow> kwargs \<Rightarrow> error + string" where
  "sparkline png_base64 data point point_color point_marker point_fill point_size point_alpha
     fill fill_color fill_alpha figsize kwargs =
     (case sparkline_figure data point point_color point_marker point_fill point_size
             point_alpha fill fill_color fill_alpha figsize kwargs of
        Inl e \<Rightarrow> Inl e
      | Inr fig \<Rightarrow> Inr (img_tag (png_base64 fig)))"

subsection \<open>The call \<^verbatim>\<open>sparkline(x, figsize=figsize, **kwargs)\<close>\<close>

text \<open>
  How Python binds the call that \<^verbatim>\<open>create\<close> makes for every row. \<open>x\<close> is the positional
  argument \<open>data\<close> and \<open>figsize\<close> is passed by name, so a key \<^verbatim>\<open>data\<close> or
  \<^verbatim>\<open>figsize\<close> in \<open>kwargs\<close> gives one parameter two values: a TypeError, raised
  before the body runs. Every other key that names a parameter sets it; a parameter
  left unset takes the default of the signature; the remaining keys are the callee's
  own \<open>kwargs\<close>: \<open>keyword_rest params keywords\<close> is what \<^verbatim>\<open>**kwargs\<close> receives in
  a function with the named parameters \<open>params\<close> that is called with the keyword
  arguments \<open>keywords\<close>.
\<close>

definition keyword_rest :: "string list \<Rightarrow> kwargs \<Rightarrow> kwargs" where
  "keyword_rest params keywords = filter (\<lambda>kv. fst kv \<notin> set params) keywords"

definition kw_get :: "kwargs \<Rightarrow> string \<Rightarrow> pyval \<Rightarrow> pyval" where
  "kw_get kwargs k dflt = (case map_of kwargs k of Some v \<Rightarrow> v | None \<Rightarrow> dflt)"

definition sparkline_params :: "string list" where
  "sparkline_params =
     [''data'', ''point'', ''point_color'', ''point_marker'', ''point_fill'', ''point_size'',
      ''point_alpha'', ''fill'', ''fill_color'', ''fill_alpha'', ''figsize'']"

definition call_sparkline ::
  "(figure \<Rightarrow> string) \<Rightarrow> cell \<Rightarrow> pyval \<Rightarrow> kwargs \<Rightarrow> error + string" where
  "call_sparkline png_base64 x figsize kwargs =
     (if map_of kwargs ''data'' \<noteq> None \<or> map_of kwargs ''figsize'' \<noteq> None then Inl TypeError
      else sparkline png_base64 x
             (kw_get kwargs ''point'' (PBool True))
             (kw_get kwargs ''point_color'' (PStr ''red''))
             (kw_get kwargs ''point_marker'' (PStr ''.''))
             (kw_get kwargs ''point_fill'' (PStr ''red''))
             (kw_get kwargs ''point_size'' (PNum 6))
             (kw_get kwargs ''point_alpha'' (PNum 1))
             (kw_get kwargs ''fill'' (PBool True))
             (kw_get kwargs ''fill_color'' (PStr ''blue''))
             (kw_get kwargs ''fill_alpha'' (PNum (1 / 10)))
             figsize
             (keyword_rest sparkline_params kwargs))"

section \<open>Dataframes and the column transformer\<close>

text \<open>
  A dataframe is its row labels (the index) and its columns in order, each a label with
  one cell per row. Dataframes are objects: a store holds them, a reference is a
  position in the store, \<^verbatim>\<open>dataframe.copy()\<close> and \<^verbatim>\<open>df[columns]\<close> allocate a new
  object, and \<^verbatim>\<open>df[title] = ...\<close> updates one in place.
\<close>

record dataframe =
  df_index :: "pyval list"
  df_columns :: "(pyval \<times> cell list) list"

type_synonym store = "dataframe list"

text \<open>\<^verbatim>\<open>dataframe[data]\<close> with one label: the column's cells, or KeyError. The labels
  of a dataframe are taken to be distinct; the lookup reads the first column of that
  label.\<close>

definition getitem :: "dataframe \<Rightarrow> pyval \<Rightarrow> error + cell list" where
  "getitem df key =
     (case map_of (df_columns df) key of None \<Rightarrow> Inl KeyError | Some vs \<Rightarrow> Inr vs)"

text \<open>\<^verbatim>\<open>series.map(f)\<close>: \<open>f\<close> on every cell in row order; the first exception ends it.\<close>

fun series_map :: "('a \<Rightarrow> error + 'b) \<Rightarrow> 'a list \<Rightarrow> error + 'b list" where
  "series_map f [] = Inr []"
| "series_map f (x # xs) =
     (case f x of
        Inl e \<Rightarrow> Inl e
      | Inr y \<Rightarrow> (case series_map f xs of Inl e \<Rightarrow> Inl e | Inr ys \<Rightarrow> Inr (y # ys)))"

text \<open>\<^verbatim>\<open>df[title] = series\<close>: an existing column keeps its place and takes the new cells;
  a new label is appended as the last column. The series carries the frame's own
  index, so the cells are assigned row by row.\<close>

definition setitem :: "dataframe \<Rightarrow> pyval \<Rightarrow> cell list \<Rightarrow> dataframe" where
  "setitem df key vs =
     df\<lparr>df_columns :=
          (if map_of (df_columns df) key \<noteq> None
           then map (\<lambda>kv. if fst kv = key then (key, vs) else kv) (df_columns df)
           else df_columns df @ [(key, vs)])\<rparr>"

text \<open>\<^verbatim>\<open>df[columns]\<close> with a list of labels: a new dataframe with these columns in the
  list's order and the same index; KeyError when a label is missing.\<close>

definition getitem_list :: "dataframe \<Rightarrow> pyval list \<Rightarrow> error + dataframe" where
  "getitem_list df keys =
     (if list_all (\<lambda>k. map_of (df_columns df) k \<noteq> None) keys
      then Inr (df\<lparr>df_columns := map (\<lambda>k. (k, the (map_of (df_columns df) k))) keys\<rparr>)
      else Inl KeyError)"

text \<open>The argument \<open>columns\<close> of \<^verbatim>\<open>create\<close>: None, a tuple, one string or a list.\<close>

datatype columns_arg =
  ColumnsNone | ColumnsTuple "pyval list" | ColumnsStr string | ColumnsList "pyval list"

fun normalize_columns :: "columns_arg \<Rightarrow> pyval list" where
  "normalize_columns ColumnsNone = []"
| "normalize_columns (ColumnsTuple xs) = xs"
| "normalize_columns (ColumnsStr s) = [PStr s]"
| "normalize_columns (ColumnsList xs) = xs"

text \<open>
  \<^verbatim>\<open>create\<close>. The result is the returned value (\<open>None\<close>, or a reference to the new
  dataframe) or the exception, together with the store afterwards. \<open>figsize0\<close> and
  \<open>title0\<close> are the parameters \<^verbatim>\<open>figsize\<close> and \<^verbatim>\<open>title\<close> as the caller passed
  them: both are reassigned before they are read.
\<close>

text \<open>The named parameters of \<^verbatim>\<open>create\<close>, in the order of its signature.\<close>

definition create_params :: "string list" where
  "create_params = [''dataframe'', ''data'', ''figsize'', ''title'', ''copy'', ''columns'']"

definition create ::
  "(figure \<Rightarrow> string) \<Rightarrow> store \<Rightarrow> nat \<Rightarrow> pyval \<Rightarrow> pyval \<Rightarrow> pyval \<Rightarrow> bool \<Rightarrow> columns_arg \<Rightarrow>
   kwargs \<Rightarrow> (error + nat option) \<times> store" where
  "create png_base64 s dataframe data figsize0 title0 copy columns kwargs =
     (case getitem (s ! dataframe) data of
        Inl e \<Rightarrow> (Inl e, s)
      | Inr sparkline_data \<Rightarrow>
         (let figsize = (case map_of kwargs ''figsize'' of
                           Some v \<Rightarrow> v | None \<Rightarrow> PTuple [4, 1 / 4]);
              title = (case map_of kwargs ''title'' of
                         Some v \<Rightarrow> v | None \<Rightarrow> PStr ''sparklines'')
          in if copy then
               (let columns1 = normalize_columns columns;
                    df = length s;
                    s1 = s @ [s ! dataframe]
                in case series_map (\<lambda>x. call_sparkline png_base64 x figsize kwargs)
                          sparkline_data of
                     Inl e \<Rightarrow> (Inl e, s1)
                   | Inr imgs \<Rightarrow>
                      (let s2 = s1[df := setitem (s1 ! df) title (map (\<lambda>h. Scalar (Str h)) imgs)];
                           columns2 = (if title \<notin> set columns1 then columns1 @ [title]
                                       else columns1)
                       in case getitem_list (s2 ! df) columns2 of
                            Inl e \<Rightarrow> (Inl e, s2)
                          | Inr sel \<Rightarrow> (Inr (Some (length s2)), s2 @ [sel])))
             else
               (case series_map (\<lambda>x. call_sparkline png_base64 x figsize kwargs)
                       sparkline_data of
                  Inl e \<Rightarrow> (Inl e, s)
                | Inr imgs \<Rightarrow>
                   (Inr None,
                    s[dataframe :=
                        setitem (s ! dataframe) title (map (\<lambda>h. Scalar (Str h)) imgs)]))))"

text \<open>
  A call \<^verbatim>\<open>create(dataframe, data, copy=copy, columns=columns, **kws)\<close> as Python binds
  it to the signature of \<^verbatim>\<open>create\<close>. A keyword of \<open>kws\<close> that names a parameter is bound
  to that parameter: \<^verbatim>\<open>figsize\<close> and \<^verbatim>\<open>title\<close> set the parameters of these names,
  which otherwise take the defaults \<^verbatim>\<open>False\<close> and \<^verbatim>\<open>'sparklines'\<close>, and a second
  value for a parameter that the call already sets is a TypeError. The body's
  \<open>kwargs\<close> receives the remaining keywords only.
\<close>

definition call_create ::
  "(figure \<Rightarrow> string) \<Rightarrow> store \<Rightarrow> nat \<Rightarrow> pyval \<Rightarrow> bool \<Rightarrow> columns_arg \<Rightarrow> kwargs \<Rightarrow>
   (error + nat option) \<times> store" where
  "call_create png_base64 s dataframe data copy columns keywords =
     (if map_of keywords ''dataframe'' = None \<and> map_of keywords ''data'' = None \<and>
         map_of keywords ''copy'' = None \<and> map_of keywords ''columns'' = None
      then create png_base64 s dataframe data
             (kw_get keywords ''figsize'' (PBool False))
             (kw_get keywords ''title'' (PStr ''sparklines''))
             copy columns
             (keyword_rest create_params keywords)
      else (Inl TypeError, s))"

section \<open>The presenter\<close>

text \<open>
  The presenter works on pandas' option registry, the notebook's output and the file
  system. \<open>defaults\<close> (the value pandas registered for each option) and
  \<open>frame_to_html\<close> (pandas' \<^verbatim>\<open>DataFrame.to_html(index=, escape=)\<close>, which reads the
  registry and may raise) are parameters, and so is \<open>writable\<close>, which says whether
  \<^verbatim>\<open>open(name, 'w')\<close> succeeds.
\<close>

record env =
  options :: "string \<Rightarrow> pyval"
  displayed :: "string list"
  files :: "string \<Rightarrow> string option"

text \<open>\<^verbatim>\<open>pd.set_option(k, v)\<close> stores \<open>v\<close> under \<open>k\<close>; \<^verbatim>\<open>pd.reset_option(k)\<close> stores
  the default registered for \<open>k\<close>.\<close>

definition set_option :: "(string \<Rightarrow> pyval) \<Rightarrow> string \<Rightarrow> pyval \<Rightarrow> (string \<Rightarrow> pyval)" where
  "set_option opts k v = opts(k := v)"

definition reset_option ::
  "(string \<Rightarrow> pyval) \<Rightarrow> (string \<Rightarrow> pyval) \<Rightarrow> string \<Rightarrow> (string \<Rightarrow> pyval)" where
  "reset_option defaults opts k = opts(k := defaults k)"

definition column_sparklines :: "(string \<Rightarrow> pyval) \<Rightarrow> (string \<Rightarrow> pyval)" where
  "column_sparklines opts =
     set_option (set_option opts ''display.max_colwidth'' (PNum (- 1)))
       ''display.max_seq_items'' (PNum 2)"

definition column_reset :: "(string \<Rightarrow> pyval) \<Rightarrow> (string \<Rightarrow> pyval) \<Rightarrow> (string \<Rightarrow> pyval)" where
  "column_reset defaults opts =
     reset_option defaults (reset_option defaults opts ''display.max_colwidth'')
       ''display.max_seq_items''"

definition nl :: string where
  "nl = [CHR 0x0A]"

definition jupyter_table_css :: string where
  "jupyter_table_css =
     ''body {'' @ nl @
     ''                        margin: 0;'' @ nl @
     ''                        font-family: Helvetica;'' @ nl @
     ''                    }'' @ nl @
     ''                    table.dataframe {'' @ nl @
     ''                        border-collapse: collapse;'' @ nl @
     ''                        border: none;'' @ nl @
     ''                    }'' @ nl @
     ''                    table.dataframe tr {'' @ nl @
     ''                        border: none;'' @ nl @
     ''                    }'' @ nl @
     ''                    table.dataframe td, table.dataframe th {'' @ nl @
     ''                        margin: 0;'' @ nl @
     ''                        border: 1px solid #000000;'' @ nl @
     ''                        padding-left: 0.25em;'' @ nl @
     ''                        padding-right: 0.25em;'' @ nl @
     ''                    }'' @ nl @
     ''                    table.dataframe th:not(:empty) {'' @ nl @
     ''                        background-color: #f2f2f2;'' @ nl @
     ''                        text-align: left;'' @ nl @
     ''                        font-weight: bold;'' @ nl @
     ''                    }'' @ nl @
     ''                    table.dataframe tr:nth-child(2) th:empty {'' @ nl @
     ''                        border-left: none;'' @ nl @
     ''                        border-right: 1px dashed #888;'' @ nl @
     ''                    }'' @ nl @
     ''                    table.dataframe td {'' @ nl @
     ''                        border: 1px solid #bababa;'' @ nl @
     ''                        background-color: #ffffff;'' @ nl @
     ''                    }'' @ nl @
     ''                    ''"

definition html_head :: string where
  "html_head =
     ''<!DOCTYPE html>'' @ nl @
     ''            <html>'' @ nl @
     ''            <head>'' @ nl @
     ''            <style>'' @ jupyter_table_css @
     ''</style>'' @ nl @
     ''            </head>'' @ nl @
     ''            <body>''"

definition html_tail :: string where
  "html_tail =
     ''</body>'' @ nl @
     ''               </html>''"

text \<open>\<^verbatim>\<open>show\<close>: widen the limits, render without escaping, display, reset the limits.
  An exception of the rendering leaves the limits widened.\<close>

definition show_dataframe ::
  "(string \<Rightarrow> pyval) \<Rightarrow> ((string \<Rightarrow> pyval) \<Rightarrow> dataframe \<Rightarrow> bool \<Rightarrow> bool \<Rightarrow> error + string) \<Rightarrow>
   env \<Rightarrow> dataframe \<Rightarrow> bool \<Rightarrow> (error + unit) \<times> env" where
  "show_dataframe defaults frame_to_html w dataframe index =
     (let w1 = w\<lparr>options := column_sparklines (options w)\<rparr> in
      case frame_to_html (options w1) dataframe index False of
        Inl e \<Rightarrow> (Inl e, w1)
      | Inr html \<Rightarrow>
         (let w2 = w1\<lparr>displayed := displayed w1 @ [html]\<rparr>
          in (Inr (), w2\<lparr>options := column_reset defaults (options w2)\<rparr>)))"

text \<open>File operations: \<^verbatim>\<open>open(name, 'w')\<close> creates or empties the file,
  \<^verbatim>\<open>f.write(s)\<close> appends to it.\<close>

definition file_open_w :: "(string \<Rightarrow> string option) \<Rightarrow> string \<Rightarrow> (string \<Rightarrow> string option)" where
  "file_open_w fs name = fs(name \<mapsto> [])"

definition file_write ::
  "(string \<Rightarrow> string option) \<Rightarrow> string \<Rightarrow> string \<Rightarrow> (string \<Rightarrow> string option)" where
  "file_write fs name text = fs(name \<mapsto> (case fs name of None \<Rightarrow> [] | Some old \<Rightarrow> old) @ text)"

text \<open>\<^verbatim>\<open>to_html\<close>: the same bracket around the rendering (with pandas' default
  \<^verbatim>\<open>index=True\<close>), then the three writes. \<open>kwargs\<close> is received and not read.\<close>

definition to_html ::
  "(string \<Rightarrow> pyval) \<Rightarrow> ((string \<Rightarrow> pyval) \<Rightarrow> dataframe \<Rightarrow> bool \<Rightarrow> bool \<Rightarrow> error + string) \<Rightarrow>
   (string \<Rightarrow> bool) \<Rightarrow> env \<Rightarrow> dataframe \<Rightarrow> string \<Rightarrow> kwargs \<Rightarrow> (error + unit) \<times> env" where
  "to_html defaults frame_to_html writable w dataframe filename kwargs =
     (let w1 = w\<lparr>options := column_sparklines (options w)\<rparr> in
      case frame_to_html (options w1) dataframe True False of
        Inl e \<Rightarrow> (Inl e, w1)
      | Inr a \<Rightarrow>
         (let w2 = w1\<lparr>options := column_reset defaults (options w1)\<rparr>;
              name = filename @ ''.html''
          in if \<not> writable name then (Inl OSError, w2)
             else
               (let f0 = file_open_w (files w2) name;
                    f1 = file_write f0 name html_head;
                    f2 = file_write f1 name a;
                    f3 = file_write f2 name html_tail
                in (Inr (), w2\<lparr>files := f3\<rparr>))))"

section \<open>Well-formed frames and example data\<close>

text \<open>Every column of a dataframe has one cell per row.\<close>

definition rectangular :: "dataframe \<Rightarrow> bool" where
  "rectangular df = list_all (\<lambda>kv. length (snd kv) = length (df_index df)) (df_columns df)"

text \<open>
  Concrete data on which the theorems below are instantiated: an encoder that returns a
  fixed payload, a dataframe of three rows, a dataframe of no rows, pandas' defaults
  for the two display limits (50 and 100), a table renderer, and an environment in
  which the user has set \<^verbatim>\<open>display.max_colwidth\<close> to 200.
\<close>

definition example_png :: "figure \<Rightarrow> string" where
  "example_png fig = ''iVBORw0KGgo=''"

text \<open>An encoder whose payload shows the size of the figure it was given.\<close>

definition figsize_png :: "figure \<Rightarrow> string" where
  "figsize_png fig =
     (if fig_figsize fig = PTuple [4, 1 / 4] then ''4x0.25''
      else if fig_figsize fig = PTuple [2, 1 / 2] then ''2x0.5''
      else ''other'')"

definition example_frame :: dataframe where
  "example_frame =
     \<lparr>df_index = [PNum 0, PNum 1, PNum 2],
      df_columns =
        [(PStr ''id'', [Scalar (Str ''a''), Scalar (Str ''b''), Scalar (Str ''c'')]),
         (PStr ''data'', [Seq [Num 1, Num 2, Num 3, Num 2, Num 1], Seq [Num 5, Num 4],
                          Seq [Num 2, Num 2, Num 7]])]\<rparr>"

definition empty_frame :: dataframe where
  "empty_frame = \<lparr>df_index = [], df_columns = [(PStr ''data'', [])]\<rparr>"

definition example_defaults :: "string \<Rightarrow> pyval" where
  "example_defaults k =
     (if k = ''display.max_colwidth'' then PNum 50
      else if k = ''display.max_seq_items'' then PNum 100 else PNone)"

definition example_render ::
  "(string \<Rightarrow> pyval) \<Rightarrow> dataframe \<Rightarrow> bool \<Rightarrow> bool \<Rightarrow> error + string" where
  "example_render opts df index escape = Inr ''<table></table>''"

definition example_env :: env where
  "example_env =
     \<lparr>options = example_defaults(''display.max_colwidth'' := PNum 200),
      displayed = [],
      files = Map.empty\<rparr>"

section \<open>Properties of the renderer\<close>

lemma min_from_Num:
  "min_from (Num m) (map Num xs) = Inr (Num (fold min xs m))"
  by (induction xs arbitrary: m) (auto simp: min_def)

lemma py_min_Num:
  "py_min (map Num (x # xs)) = Inr (Num (Min (set (x # xs))))"
  using Min.set_eq_fold [of x xs] by (simp add: min_from_Num)

lemma py_index_last:
  "data \<noteq> [] \<Longrightarrow> py_index data (int (length data) - 1) = Inr (last data)"
  by (cases data rule: rev_cases) (auto simp: py_index_def Let_def)

text \<open>What a successful call has drawn: the line, the fill down to the minimum of the
  data over the positions \<open>0 ..< len\<close>, and the marker on the last item at
  \<open>x = len - 1\<close>. Neither \<open>point\<close> nor \<open>fill\<close> occurs on the right.\<close>

lemma sparkline_figure_calls:
  assumes "sparkline_figure data0 point point_color point_marker point_fill point_size
             point_alpha fill fill_color fill_alpha figsize kwargs = Inr fig"
  shows "\<exists>data plot_min. py_list data0 = Inr data \<and> data \<noteq> [] \<and> py_min data = Inr plot_min \<and>
           fig = \<lparr>fig_figsize = figsize,
                  fig_calls =
                    [Plot data kwargs, AxisOff,
                     FillBetween [0..<length data] data (replicate (length data) plot_min)
                       fill_color fill_alpha,
                     PlotPoint (int (length data) - 1) (last data) point_fill point_marker
                       point_color point_size point_alpha False,
                     SubplotsAdjust ''left'' 0, SubplotsAdjust ''right'' (99 / 100),
                     SubplotsAdjust ''bottom'' (1 / 10), SubplotsAdjust ''top'' (9 / 10)]\<rparr>"
proof -
  obtain data where d: "py_list data0 = Inr data"
    using assms by (auto simp: sparkline_figure_def split: sum.splits)
  obtain plot_min where m: "py_min data = Inr plot_min"
    using assms d by (auto simp: sparkline_figure_def Let_def split: sum.splits)
  have ne: "data \<noteq> []"
    using m by (cases data) auto
  show ?thesis
    using assms d m ne py_index_last [OF ne] by (simp add: sparkline_figure_def Let_def)
qed

text \<open>
  C8. Called on an empty sequence, \<^verbatim>\<open>sparkline\<close> fails: \<^verbatim>\<open>min(data)\<close> raises ValueError,
  which nothing in the body catches, so neither a figure nor an \<^verbatim>\<open>img\<close> tag is
  produced, whatever the options. The lookup of the last element,
  \<^verbatim>\<open>data[plot_len - 1]\<close>, would raise IndexError on the empty list as well; the
  minimum is computed first.
\<close>

theorem sparkline_empty_fails:
  "py_min [] = Inl ValueError \<and>
   py_index ([] :: elem list) (int (length ([] :: elem list)) - 1) = Inl IndexError \<and>
   sparkline_figure (Seq []) point point_color point_marker point_fill point_size
     point_alpha fill fill_color fill_alpha figsize kwargs = Inl ValueError \<and>
   sparkline png_base64 (Seq []) point point_color point_marker point_fill point_size
     point_alpha fill fill_color fill_alpha figsize kwargs = Inl ValueError"
  by (simp add: sparkline_def sparkline_figure_def py_index_def)

text \<open>
  C3. The claim: the marker on the last element is drawn if and only if \<open>point\<close> is on.
  The code draws it always: the figure does not depend on \<open>point\<close>, and with
  \<open>point = False\<close> on the sequence \<open>1, 2, 3\<close> (all other options at their defaults)
  the marker call is made, at \<open>x = 2\<close> with \<open>y = 3\<close>.
\<close>

theorem sparkline_point_off_marker_drawn:
  "sparkline_figure data (PBool False) point_color point_marker point_fill point_size
     point_alpha fill fill_color fill_alpha figsize kwargs =
   sparkline_figure data (PBool True) point_color point_marker point_fill point_size
     point_alpha fill fill_color fill_alpha figsize kwargs \<and>
   sparkline_figure (Seq [Num 1, Num 2, Num 3]) (PBool False) (PStr ''red'') (PStr ''.'')
     (PStr ''red'') (PNum 6) (PNum 1) (PBool True) (PStr ''blue'') (PNum (1 / 10))
     (PTuple [4, 1 / 4]) [] =
   Inr \<lparr>fig_figsize = PTuple [4, 1 / 4],
        fig_calls =
          [Plot [Num 1, Num 2, Num 3] [], AxisOff,
           FillBetween [0, 1, 2] [Num 1, Num 2, Num 3] [Num 1, Num 1, Num 1]
             (PStr ''blue'') (PNum (1 / 10)),
           PlotPoint 2 (Num 3) (PStr ''red'') (PStr ''.'') (PStr ''red'') (PNum 6) (PNum 1) False,
           SubplotsAdjust ''left'' 0, SubplotsAdjust ''right'' (99 / 100),
           SubplotsAdjust ''bottom'' (1 / 10), SubplotsAdjust ''top'' (9 / 10)]\<rparr>"
  by (simp add: sparkline_figure_def py_index_def upt_rec numeral_3_eq_3)

text \<open>
  C4. The claim: the area between the line and the minimum of the sequence is filled if
  and only if \<open>fill\<close> is on. The code fills it always: the figure does not depend on
  \<open>fill\<close>, and with \<open>fill = False\<close> on the sequence \<open>3, 1, 2\<close> (all other options at
  their defaults) the fill call is made, between the data and its minimum \<open>1\<close> over
  the positions \<open>0, 1, 2\<close>.
\<close>

theorem sparkline_fill_off_area_filled:
  "sparkline_figure data point point_color point_marker point_fill point_size
     point_alpha (PBool False) fill_color fill_alpha figsize kwargs =
   sparkline_figure data point point_color point_marker point_fill point_size
     point_alpha (PBool True) fill_color fill_alpha figsize kwargs \<and>
   sparkline_figure (Seq [Num 3, Num 1, Num 2]) (PBool True) (PStr ''red'') (PStr ''.'')
     (PStr ''red'') (PNum 6) (PNum 1) (PBool False) (PStr ''blue'') (PNum (1 / 10))
     (PTuple [4, 1 / 4]) [] =
   Inr \<lparr>fig_figsize = PTuple [4, 1 / 4],
        fig_calls =
          [Plot [Num 3, Num 1, Num 2] [], AxisOff,
           FillBetween [0, 1, 2] [Num 3, Num 1, Num 2] [Num 1, Num 1, Num 1]
             (PStr ''blue'') (PNum (1 / 10)),
           PlotPoint 2 (Num 2) (PStr ''red'') (PStr ''.'') (PStr ''red'') (PNum 6) (PNum 1) False,
           SubplotsAdjust ''left'' 0, SubplotsAdjust ''right'' (99 / 100),
           SubplotsAdjust ''bottom'' (1 / 10), SubplotsAdjust ''top'' (9 / 10)]\<rparr>"
  by (simp add: sparkline_figure_def py_index_def upt_rec numeral_3_eq_3)

section \<open>Properties of the column transformer\<close>

subsection \<open>The library operations\<close>

lemma series_map_Inr:
  "series_map f xs = Inr ys \<Longrightarrow> list_all2 (\<lambda>x y. f x = Inr y) xs ys"
  by (induction xs arbitrary: ys) (auto split: sum.splits)

lemma series_map_length: "series_map f xs = Inr ys \<Longrightarrow> length ys = length xs"
  by (drule series_map_Inr) (simp add: list_all2_lengthD)

lemma series_map_Inl: "series_map f xs = Inl e \<Longrightarrow> \<exists>x \<in> set xs. f x = Inl e"
  by (induction xs) (auto split: sum.splits)

lemma map_of_replace:
  "map_of (map (\<lambda>kv. if fst kv = key then (key, vs) else kv) cols) k =
     (if k = key \<and> map_of cols key \<noteq> None then Some vs else map_of cols k)"
  by (induction cols) auto

lemma setitem_index [simp]: "df_index (setitem df key vs) = df_index df"
  by (simp add: setitem_def)

lemma setitem_lookup:
  "map_of (df_columns (setitem df key vs)) k =
     (if k = key then Some vs else map_of (df_columns df) k)"
  by (auto simp: setitem_def map_of_replace map_of_append map_add_def split: option.splits)

lemma map_fst_replace:
  "map fst (map (\<lambda>kv. if fst kv = key then (key, vs) else kv) cols) = map fst cols"
  by (induction cols) auto

lemma setitem_labels:
  "map fst (df_columns (setitem df key vs)) =
     (if key \<in> set (map fst (df_columns df)) then map fst (df_columns df)
      else map fst (df_columns df) @ [key])"
  by (auto simp: setitem_def map_fst_replace map_of_eq_None_iff)

lemma filter_replace:
  "filter (\<lambda>kv. fst kv \<noteq> key) (map (\<lambda>kv. if fst kv = key then (key, vs) else kv) cols) =
     filter (\<lambda>kv. fst kv \<noteq> key) cols"
  by (induction cols) auto

lemma setitem_others:
  "filter (\<lambda>kv. fst kv \<noteq> key) (df_columns (setitem df key vs)) =
     filter (\<lambda>kv. fst kv \<noteq> key) (df_columns df)"
  by (auto simp: setitem_def filter_replace)

lemma setitem_kept:
  assumes "kv \<in> set (df_columns (setitem df key vs))" and "fst kv \<noteq> key"
  shows "kv \<in> set (df_columns df)"
proof -
  have "kv \<in> set (filter (\<lambda>kv. fst kv \<noteq> key) (df_columns (setitem df key vs)))"
    using assms by simp
  then show ?thesis
    unfolding setitem_others by simp
qed

lemma getitem_length:
  assumes "rectangular df" and "getitem df key = Inr vs"
  shows "length vs = length (df_index df)"
proof -
  have "map_of (df_columns df) key = Some vs"
    using assms(2) by (auto simp: getitem_def split: option.splits)
  then have "(key, vs) \<in> set (df_columns df)"
    by (rule map_of_SomeD)
  with assms(1) show ?thesis
    by (auto simp: rectangular_def list_all_iff)
qed

lemma rectangular_setitem:
  assumes "rectangular df" and "length vs = length (df_index df)"
  shows "rectangular (setitem df key vs)"
  using assms by (auto simp: rectangular_def setitem_def list_all_iff)

lemma getitem_list_Inr:
  assumes "getitem_list df keys = Inr sel"
  shows "df_index sel = df_index df"
    and "df_columns sel = map (\<lambda>k. (k, the (map_of (df_columns df) k))) keys"
    and "\<forall>k \<in> set keys. map_of (df_columns df) k \<noteq> None"
  using assms by (auto simp: getitem_list_def list_all_iff split: if_splits)

lemma getitem_list_cells:
  assumes "getitem_list df keys = Inr sel" and "kv \<in> set (df_columns sel)"
  shows "fst kv \<in> set keys \<and> kv \<in> set (df_columns df)"
proof -
  obtain k where k: "k \<in> set keys" and kv: "kv = (k, the (map_of (df_columns df) k))"
    using assms(2) by (auto simp: getitem_list_Inr(2) [OF assms(1)])
  obtain vs where "map_of (df_columns df) k = Some vs"
    using getitem_list_Inr(3) [OF assms(1)] k by auto
  then show ?thesis
    using k kv by (auto dest: map_of_SomeD)
qed

lemma getitem_list_rectangular:
  assumes "rectangular df" and "getitem_list df keys = Inr sel"
  shows "rectangular sel"
  using assms(1) getitem_list_cells [OF assms(2)]
  by (auto simp: rectangular_def list_all_iff getitem_list_Inr(1) [OF assms(2)])

lemma getitem_list_lookup:
  assumes "getitem_list df keys = Inr sel" and "k \<in> set keys"
  shows "map_of (df_columns sel) k = map_of (df_columns df) k"
proof -
  have "map_of (df_columns df) k \<noteq> None"
    using getitem_list_Inr(3) [OF assms(1)] assms(2) by auto
  then show ?thesis
    using assms(2)
    by (auto simp: getitem_list_Inr(2) [OF assms(1)] map_of_map_restrict restrict_map_def)
qed

lemma getitem_list_single:
  "getitem_list (setitem df key vs) [key] = Inr ((setitem df key vs)\<lparr>df_columns := [(key, vs)]\<rparr>)"
  by (simp add: getitem_list_def setitem_lookup)

subsection \<open>What a call of \<^verbatim>\<open>create\<close> that returns has done\<close>

lemma create_inplace_Inr:
  assumes "create png_base64 s dataframe data figsize0 title0 False columns kwargs = (Inr r, s')"
  shows "\<exists>sparkline_data imgs.
           getitem (s ! dataframe) data = Inr sparkline_data \<and>
           series_map (\<lambda>x. call_sparkline png_base64 x
                              (kw_get kwargs ''figsize'' (PTuple [4, 1 / 4])) kwargs)
             sparkline_data = Inr imgs \<and>
           r = None \<and>
           s' = s[dataframe := setitem (s ! dataframe)
                    (kw_get kwargs ''title'' (PStr ''sparklines''))
                    (map (\<lambda>h. Scalar (Str h)) imgs)]"
  using assms by (auto simp: create_def kw_get_def Let_def split: sum.splits)

lemma create_copy_Inr:
  assumes "create png_base64 s dataframe data figsize0 title0 True columns kwargs = (Inr r, s')"
  shows "\<exists>sparkline_data imgs sel.
           getitem (s ! dataframe) data = Inr sparkline_data \<and>
           series_map (\<lambda>x. call_sparkline png_base64 x
                              (kw_get kwargs ''figsize'' (PTuple [4, 1 / 4])) kwargs)
             sparkline_data = Inr imgs \<and>
           getitem_list
             (setitem (s ! dataframe) (kw_get kwargs ''title'' (PStr ''sparklines''))
                (map (\<lambda>h. Scalar (Str h)) imgs))
             (if kw_get kwargs ''title'' (PStr ''sparklines'') \<notin> set (normalize_columns columns)
              then normalize_columns columns @ [kw_get kwargs ''title'' (PStr ''sparklines'')]
              else normalize_columns columns) = Inr sel \<and>
           r = Some (Suc (length s)) \<and>
           s' = s @ [setitem (s ! dataframe) (kw_get kwargs ''title'' (PStr ''sparklines''))
                       (map (\<lambda>h. Scalar (Str h)) imgs), sel]"
  using assms
  by (auto simp: create_def kw_get_def Let_def nth_append split: sum.splits if_splits)

lemma create_copy_store:
  assumes "create png_base64 s dataframe data figsize0 title0 True columns kwargs = (r, s')"
  shows "take (length s) s' = s"
  using assms
  by (auto simp: create_def kw_get_def Let_def nth_append split: sum.splits if_splits)

lemma create_inplace_error:
  assumes "create png_base64 s dataframe data figsize0 title0 False columns kwargs = (Inl e, s')"
  shows "s' = s"
  using assms by (auto simp: create_def Let_def split: sum.splits)

lemma create_Inr_result:
  assumes "dataframe < length s"
    and "create png_base64 s dataframe data figsize0 title0 copy columns kwargs = (Inr r, s')"
  shows "\<exists>src imgs keys.
           getitem (s ! dataframe) data = Inr src \<and>
           series_map (\<lambda>x. call_sparkline png_base64 x
                              (kw_get kwargs ''figsize'' (PTuple [4, 1 / 4])) kwargs) src = Inr imgs \<and>
           (let title = kw_get kwargs ''title'' (PStr ''sparklines'');
                new = setitem (s ! dataframe) title (map (\<lambda>h. Scalar (Str h)) imgs);
                res = (case r of None \<Rightarrow> s' ! dataframe | Some df \<Rightarrow> s' ! df)
            in res = new \<or> (title \<in> set keys \<and> getitem_list new keys = Inr res))"
proof (cases copy)
  case False
  with assms(2)
    create_inplace_Inr [of png_base64 s dataframe data figsize0 title0 columns kwargs r s']
  show ?thesis
    using assms(1) by (auto simp: Let_def)
next
  case True
  let ?title = "kw_get kwargs ''title'' (PStr ''sparklines'')"
  let ?keys = "if ?title \<notin> set (normalize_columns columns)
               then normalize_columns columns @ [?title] else normalize_columns columns"
  have "?title \<in> set ?keys"
    by simp
  with True assms(2)
    create_copy_Inr [of png_base64 s dataframe data figsize0 title0 columns kwargs r s']
  show ?thesis
    unfolding Let_def by (fastforce simp: nth_append)
qed

lemma result_frame:
  assumes "res = setitem df title vs \<or> (title \<in> set keys \<and> getitem_list (setitem df title vs) keys = Inr res)"
  shows "df_index res = df_index df"
    and "map_of (df_columns res) title = Some vs"
    and "list_all (\<lambda>kv. fst kv = title \<or> kv \<in> set (df_columns df)) (df_columns res)"
    and "rectangular df \<Longrightarrow> length vs = length (df_index df) \<Longrightarrow> rectangular res"
proof -
  let ?new = "setitem df title vs"
  have kept: "list_all (\<lambda>kv. fst kv = title \<or> kv \<in> set (df_columns df)) (df_columns ?new)"
    unfolding list_all_iff using setitem_kept by blast
  show "df_index res = df_index df"
    using assms by (auto simp: getitem_list_Inr(1))
  show "map_of (df_columns res) title = Some vs"
    using assms by (auto simp: getitem_list_lookup setitem_lookup)
  show "list_all (\<lambda>kv. fst kv = title \<or> kv \<in> set (df_columns df)) (df_columns res)"
    using assms
  proof
    assume "res = ?new"
    then show ?thesis using kept by simp
  next
    assume "title \<in> set keys \<and> getitem_list ?new keys = Inr res"
    then have g: "getitem_list ?new keys = Inr res" by simp
    show ?thesis
      unfolding list_all_iff using getitem_list_cells [OF g] setitem_kept by blast
  qed
  show "rectangular res" if "rectangular df" and "length vs = length (df_index df)"
  proof -
    have "rectangular ?new"
      using that by (rule rectangular_setitem)
    then show ?thesis
      using assms getitem_list_rectangular by blast
  qed
qed

text \<open>The keyword arguments of a call that name a parameter of \<^verbatim>\<open>create\<close> are bound to
  that parameter, so the \<open>kwargs\<close> of \<^verbatim>\<open>create\<close> itself never hold the keys
  \<^verbatim>\<open>figsize\<close> and \<^verbatim>\<open>title\<close>; and the body reads neither parameter.\<close>

lemma create_kwargs_keys:
  "map_of (keyword_rest create_params keywords) ''figsize'' = None \<and>
   map_of (keyword_rest create_params keywords) ''title'' = None"
  by (auto simp: keyword_rest_def create_params_def map_of_eq_None_iff)

lemma create_parameters_unread:
  "create png_base64 s dataframe data figsize0 title0 copy columns kwargs =
   create png_base64 s dataframe data figsize1 title1 copy columns kwargs"
  by (simp add: create_def)

lemma map_of_keyword_rest:
  "map_of (keyword_rest params kws) k =
     (if k \<in> set params then None else map_of kws k)"
  unfolding keyword_rest_def
  by (induction kws) auto

lemma keyword_rest_twice:
  "set qs \<subseteq> set ps \<Longrightarrow> keyword_rest ps (keyword_rest qs kws) = keyword_rest ps kws"
  unfolding keyword_rest_def
  by (induction kws) auto

subsection \<open>The example data, evaluated\<close>

lemma example_render_row:
  "map_of kwargs ''data'' = None \<Longrightarrow> map_of kwargs ''figsize'' = None \<Longrightarrow>
   call_sparkline example_png (Seq (x # xs)) figsize kwargs =
     (case min_from x xs of Inl e \<Rightarrow> Inl e | Inr m \<Rightarrow> Inr (img_tag ''iVBORw0KGgo=''))"
  by (simp add: call_sparkline_def kw_get_def sparkline_def sparkline_figure_def py_index_def
        Let_def example_png_def split: sum.splits)

lemma figsize_render_row:
  "map_of kwargs ''data'' = None \<Longrightarrow> map_of kwargs ''figsize'' = None \<Longrightarrow>
   call_sparkline figsize_png (Seq (x # xs)) (PTuple [4, 1 / 4]) kwargs =
     (case min_from x xs of Inl e \<Rightarrow> Inl e | Inr m \<Rightarrow> Inr (img_tag ''4x0.25''))"
  by (simp add: call_sparkline_def kw_get_def sparkline_def sparkline_figure_def py_index_def
        Let_def figsize_png_def split: sum.splits)

lemma example_copy_eval:
  "create example_png [example_frame] 0 (PStr ''data'') (PBool False) (PStr ''sparklines'')
     True (ColumnsList [PStr ''id'']) [] =
   (Inr (Some 2),
    [example_frame,
     example_frame\<lparr>df_columns := df_columns example_frame @
        [(PStr ''sparklines'', replicate 3 (Scalar (Str (img_tag ''iVBORw0KGgo=''))))]\<rparr>,
     \<lparr>df_index = [PNum 0, PNum 1, PNum 2],
      df_columns =
        [(PStr ''id'', [Scalar (Str ''a''), Scalar (Str ''b''), Scalar (Str ''c'')]),
         (PStr ''sparklines'', replicate 3 (Scalar (Str (img_tag ''iVBORw0KGgo=''))))]\<rparr>])"
  by (simp add: create_def getitem_def setitem_def getitem_list_def example_render_row
        example_frame_def Let_def numeral_3_eq_3 numeral_2_eq_2)

lemma example_inplace_eval:
  "create example_png [example_frame] 0 (PStr ''data'') (PBool False) (PStr ''sparklines'')
     False ColumnsNone [] =
   (Inr None,
    [example_frame\<lparr>df_columns := df_columns example_frame @
        [(PStr ''sparklines'', replicate 3 (Scalar (Str (img_tag ''iVBORw0KGgo=''))))]\<rparr>])"
  by (simp add: create_def getitem_def setitem_def example_render_row
        example_frame_def Let_def numeral_3_eq_3)

lemma example_copy_none_eval:
  "create example_png [example_frame] 0 (PStr ''data'') (PBool False) (PStr ''sparklines'')
     True ColumnsNone [] =
   (Inr (Some 2),
    [example_frame,
     example_frame\<lparr>df_columns := df_columns example_frame @
        [(PStr ''sparklines'', replicate 3 (Scalar (Str (img_tag ''iVBORw0KGgo=''))))]\<rparr>,
     \<lparr>df_index = [PNum 0, PNum 1, PNum 2],
      df_columns =
        [(PStr ''sparklines'', replicate 3 (Scalar (Str (img_tag ''iVBORw0KGgo=''))))]\<rparr>])"
  by (simp add: create_def getitem_def setitem_def getitem_list_def example_render_row
        example_frame_def Let_def numeral_3_eq_3 numeral_2_eq_2)

lemma example_frame_valid: "(0::nat) < length [example_frame]"
  by simp

lemma example_frame_rectangular: "rectangular ([example_frame] ! 0)"
  by (simp add: rectangular_def example_frame_def)

subsection \<open>The claims about \<^verbatim>\<open>create\<close>\<close>

text \<open>
  C5. In copy mode \<^verbatim>\<open>create\<close> never changes its input: whatever the call returns or
  raises, every dataframe that was in the store is afterwards what it was before, the
  input \<open>dataframe\<close> among them (same index, same columns, same cells). When the call
  returns, it returns a reference to a dataframe allocated by the call, never \<open>None\<close>
  and never the input.
\<close>

theorem create_copy_leaves_input:
  assumes "dataframe < length s"
    and "create png_base64 s dataframe data figsize0 title0 True columns kwargs = (r, s')"
  shows "take (length s) s' = s \<and> s' ! dataframe = s ! dataframe \<and>
         (case r of
            Inl e \<Rightarrow> True
          | Inr None \<Rightarrow> False
          | Inr (Some df) \<Rightarrow> length s \<le> df \<and> df < length s' \<and> df \<noteq> dataframe)"
proof -
  have t: "take (length s) s' = s"
    using assms(2) by (rule create_copy_store)
  have "s' ! dataframe = take (length s) s' ! dataframe"
    using assms(1) by simp
  then have d: "s' ! dataframe = s ! dataframe"
    using t by simp
  have r: "case r of Inl e \<Rightarrow> True | Inr None \<Rightarrow> False
           | Inr (Some df) \<Rightarrow> length s \<le> df \<and> df < length s' \<and> df \<noteq> dataframe"
  proof (cases r)
    case (Inl e)
    then show ?thesis by simp
  next
    case (Inr v)
    with assms(2) create_copy_Inr [of png_base64 s dataframe data figsize0 title0 columns kwargs v s']
    have "v = Some (Suc (length s)) \<and> length s' = Suc (Suc (length s))"
      by auto
    with Inr assms(1) show ?thesis by simp
  qed
  from t d r show ?thesis by simp
qed

theorem create_copy_leaves_input_witness:
  "(0::nat) < length [example_frame] \<and>
   fst (create example_png [example_frame] 0 (PStr ''data'') (PBool False) (PStr ''sparklines'')
          True (ColumnsList [PStr ''id'']) []) = Inr (Some 2) \<and>
   snd (create example_png [example_frame] 0 (PStr ''data'') (PBool False) (PStr ''sparklines'')
          True (ColumnsList [PStr ''id'']) []) ! 0 = example_frame \<and>
   take 1 (snd (create example_png [example_frame] 0 (PStr ''data'') (PBool False)
                  (PStr ''sparklines'') True (ColumnsList [PStr ''id'']) [])) = [example_frame]"
  using create_copy_leaves_input [OF example_frame_valid example_copy_eval]
  unfolding example_copy_eval by simp

text \<open>
  C6. Without copy mode, a call of \<^verbatim>\<open>create\<close> that returns has returned \<open>None\<close> and has
  changed the input dataframe in place, and nothing else: the store has the same
  objects, every other object is unchanged, the index is unchanged, the labels are the
  old labels with the destination label appended when it was new (and in its old
  place when it was not), every column of another label is unchanged, and the
  destination column holds the \<^verbatim>\<open>img\<close> tags of the source column's cells, row by row.
  A call that raises leaves the store as it was.
\<close>

theorem create_inplace_frame:
  assumes "dataframe < length s"
    and "create png_base64 s dataframe data figsize0 title0 False columns kwargs = (r, s')"
  shows "case r of
           Inl e \<Rightarrow> s' = s
         | Inr v \<Rightarrow>
            v = None \<and> length s' = length s \<and>
            (\<forall>i. i \<noteq> dataframe \<longrightarrow> s' ! i = s ! i) \<and>
            df_index (s' ! dataframe) = df_index (s ! dataframe) \<and>
            map fst (df_columns (s' ! dataframe)) =
              (if kw_get kwargs ''title'' (PStr ''sparklines'')
                    \<in> set (map fst (df_columns (s ! dataframe)))
               then map fst (df_columns (s ! dataframe))
               else map fst (df_columns (s ! dataframe)) @
                      [kw_get kwargs ''title'' (PStr ''sparklines'')]) \<and>
            filter (\<lambda>kv. fst kv \<noteq> kw_get kwargs ''title'' (PStr ''sparklines''))
                (df_columns (s' ! dataframe)) =
              filter (\<lambda>kv. fst kv \<noteq> kw_get kwargs ''title'' (PStr ''sparklines''))
                (df_columns (s ! dataframe)) \<and>
            (\<forall>k. k \<noteq> kw_get kwargs ''title'' (PStr ''sparklines'') \<longrightarrow>
                 map_of (df_columns (s' ! dataframe)) k = map_of (df_columns (s ! dataframe)) k) \<and>
            (\<exists>src imgs.
                getitem (s ! dataframe) data = Inr src \<and>
                list_all2 (\<lambda>x h. call_sparkline png_base64 x
                                     (kw_get kwargs ''figsize'' (PTuple [4, 1 / 4])) kwargs = Inr h)
                  src imgs \<and>
                map_of (df_columns (s' ! dataframe))
                  (kw_get kwargs ''title'' (PStr ''sparklines'')) =
                    Some (map (\<lambda>h. Scalar (Str h)) imgs))"
proof (cases r)
  case (Inl e)
  with assms(2) show ?thesis by (simp add: create_inplace_error)
next
  case (Inr v)
  with assms(2) create_inplace_Inr [of png_base64 s dataframe data figsize0 title0 columns kwargs v s']
  obtain src imgs where v: "v = None"
    and src: "getitem (s ! dataframe) data = Inr src"
    and imgs: "series_map (\<lambda>x. call_sparkline png_base64 x
                 (kw_get kwargs ''figsize'' (PTuple [4, 1 / 4])) kwargs) src = Inr imgs"
    and s': "s' = s[dataframe := setitem (s ! dataframe)
                     (kw_get kwargs ''title'' (PStr ''sparklines''))
                     (map (\<lambda>h. Scalar (Str h)) imgs)]"
    by auto
  have at: "s' ! dataframe = setitem (s ! dataframe)
              (kw_get kwargs ''title'' (PStr ''sparklines'')) (map (\<lambda>h. Scalar (Str h)) imgs)"
    using s' assms(1) by simp
  have others: "\<forall>i. i \<noteq> dataframe \<longrightarrow> s' ! i = s ! i"
    using s' by simp
  have len: "length s' = length s"
    using s' by simp
  have ex: "\<exists>src imgs.
      getitem (s ! dataframe) data = Inr src \<and>
      list_all2 (\<lambda>x h. call_sparkline png_base64 x
                           (kw_get kwargs ''figsize'' (PTuple [4, 1 / 4])) kwargs = Inr h)
        src imgs \<and>
      map_of (df_columns (s' ! dataframe)) (kw_get kwargs ''title'' (PStr ''sparklines'')) =
        Some (map (\<lambda>h. Scalar (Str h)) imgs)"
    using src series_map_Inr [OF imgs] at by (auto simp: setitem_lookup)
  have rest: "df_index (s' ! dataframe) = df_index (s ! dataframe) \<and>
      map fst (df_columns (s' ! dataframe)) =
        (if kw_get kwargs ''title'' (PStr ''sparklines'')
              \<in> set (map fst (df_columns (s ! dataframe)))
         then map fst (df_columns (s ! dataframe))
         else map fst (df_columns (s ! dataframe)) @
                [kw_get kwargs ''title'' (PStr ''sparklines'')]) \<and>
      filter (\<lambda>kv. fst kv \<noteq> kw_get kwargs ''title'' (PStr ''sparklines''))
          (df_columns (s' ! dataframe)) =
        filter (\<lambda>kv. fst kv \<noteq> kw_get kwargs ''title'' (PStr ''sparklines''))
          (df_columns (s ! dataframe)) \<and>
      (\<forall>k. k \<noteq> kw_get kwargs ''title'' (PStr ''sparklines'') \<longrightarrow>
           map_of (df_columns (s' ! dataframe)) k = map_of (df_columns (s ! dataframe)) k)"
    unfolding at
    by (simp add: setitem_labels setitem_others setitem_lookup del: set_map)
  show ?thesis
    unfolding Inr sum.case
    using v len others ex rest by blast
qed

theorem create_inplace_frame_witness:
  "(0::nat) < length [example_frame] \<and>
   fst (create example_png [example_frame] 0 (PStr ''data'') (PBool False) (PStr ''sparklines'')
          False ColumnsNone []) = Inr None \<and>
   map fst (df_columns (snd (create example_png [example_frame] 0 (PStr ''data'') (PBool False)
                               (PStr ''sparklines'') False ColumnsNone []) ! 0)) =
     [PStr ''id'', PStr ''data'', PStr ''sparklines''] \<and>
   map_of (df_columns (snd (create example_png [example_frame] 0 (PStr ''data'') (PBool False)
                              (PStr ''sparklines'') False ColumnsNone []) ! 0)) (PStr ''id'') =
     map_of (df_columns example_frame) (PStr ''id'')"
  using create_inplace_frame [OF example_frame_valid example_inplace_eval]
  unfolding example_inplace_eval by (simp add: example_frame_def)

text \<open>
  C7. \<^verbatim>\<open>create\<close> keeps the rows and their order, in both modes: the resulting
  dataframe (the input itself without copy mode, the returned one with it) has the
  index of the input, every column of it has one cell per row, every column other than
  the destination is a column of the input with the same cells, and the \<open>i\<close>-th cell
  of the destination column is the rendering of the \<open>i\<close>-th cell of the source
  column.
\<close>

theorem create_preserves_rows:
  assumes "dataframe < length s" and "rectangular (s ! dataframe)"
    and "create png_base64 s dataframe data figsize0 title0 copy columns kwargs = (Inr r, s')"
  shows "\<exists>src imgs.
           getitem (s ! dataframe) data = Inr src \<and>
           length src = length (df_index (s ! dataframe)) \<and>
           list_all2 (\<lambda>x h. call_sparkline png_base64 x
                                (kw_get kwargs ''figsize'' (PTuple [4, 1 / 4])) kwargs = Inr h)
             src imgs \<and>
           (let res = (case r of None \<Rightarrow> s' ! dataframe | Some df \<Rightarrow> s' ! df);
                title = kw_get kwargs ''title'' (PStr ''sparklines'')
            in df_index res = df_index (s ! dataframe) \<and>
               rectangular res \<and>
               map_of (df_columns res) title = Some (map (\<lambda>h. Scalar (Str h)) imgs) \<and>
               list_all (\<lambda>kv. fst kv = title \<or> kv \<in> set (df_columns (s ! dataframe)))
                 (df_columns res))"
proof -
  let ?title = "kw_get kwargs ''title'' (PStr ''sparklines'')"
  let ?render = "\<lambda>x. call_sparkline png_base64 x
                   (kw_get kwargs ''figsize'' (PTuple [4, 1 / 4])) kwargs"
  let ?res = "case r of None \<Rightarrow> s' ! dataframe | Some df \<Rightarrow> s' ! df"
  obtain src imgs keys where src: "getitem (s ! dataframe) data = Inr src"
    and imgs: "series_map ?render src = Inr imgs"
    and res: "?res = setitem (s ! dataframe) ?title (map (\<lambda>h. Scalar (Str h)) imgs) \<or>
              (?title \<in> set keys \<and>
               getitem_list (setitem (s ! dataframe) ?title (map (\<lambda>h. Scalar (Str h)) imgs))
                 keys = Inr ?res)"
    using create_Inr_result [OF assms(1,3)] unfolding Let_def by blast
  have len: "length src = length (df_index (s ! dataframe))"
    using assms(2) src by (rule getitem_length)
  have leni: "length (map (\<lambda>h. Scalar (Str h)) imgs) = length (df_index (s ! dataframe))"
    using series_map_length [OF imgs] len by simp
  show ?thesis
    using src len series_map_Inr [OF imgs] result_frame(1-3) [OF res]
      result_frame(4) [OF res assms(2) leni]
    unfolding Let_def by blast
qed

theorem create_preserves_rows_witness:
  "(0::nat) < length [example_frame] \<and> rectangular example_frame \<and>
   fst (create example_png [example_frame] 0 (PStr ''data'') (PBool False) (PStr ''sparklines'')
          True (ColumnsList [PStr ''id'']) []) = Inr (Some 2) \<and>
   df_index (snd (create example_png [example_frame] 0 (PStr ''data'') (PBool False)
                    (PStr ''sparklines'') True (ColumnsList [PStr ''id'']) []) ! 2) =
     [PNum 0, PNum 1, PNum 2] \<and>
   rectangular (snd (create example_png [example_frame] 0 (PStr ''data'') (PBool False)
                       (PStr ''sparklines'') True (ColumnsList [PStr ''id'']) []) ! 2) \<and>
   fst (create example_png [example_frame] 0 (PStr ''data'') (PBool False) (PStr ''sparklines'')
          False ColumnsNone []) = Inr None \<and>
   df_index (snd (create example_png [example_frame] 0 (PStr ''data'') (PBool False)
                    (PStr ''sparklines'') False ColumnsNone []) ! 0) =
     [PNum 0, PNum 1, PNum 2] \<and>
   rectangular (snd (create example_png [example_frame] 0 (PStr ''data'') (PBool False)
                       (PStr ''sparklines'') False ColumnsNone []) ! 0)"
  using create_preserves_rows [OF example_frame_valid example_frame_rectangular example_copy_eval]
    create_preserves_rows [OF example_frame_valid example_frame_rectangular example_inplace_eval]
  unfolding example_copy_eval example_inplace_eval
  by (simp add: rectangular_def example_frame_def)

text \<open>
  C10. In copy mode with \<open>columns\<close> left at \<open>None\<close>, the returned dataframe has exactly
  one column, the destination column: its label is the destination label, its cells
  are the \<^verbatim>\<open>img\<close> tags of the source column's cells, row by row, and its index is the
  input's. Every column of the input is dropped from it.
\<close>

theorem create_copy_no_columns:
  assumes "create png_base64 s dataframe data figsize0 title0 True ColumnsNone kwargs = (Inr r, s')"
  shows "\<exists>df src imgs.
           r = Some df \<and> df < length s' \<and>
           getitem (s ! dataframe) data = Inr src \<and>
           list_all2 (\<lambda>x h. call_sparkline png_base64 x
                                (kw_get kwargs ''figsize'' (PTuple [4, 1 / 4])) kwargs = Inr h)
             src imgs \<and>
           df_columns (s' ! df) =
             [(kw_get kwargs ''title'' (PStr ''sparklines''), map (\<lambda>h. Scalar (Str h)) imgs)] \<and>
           map fst (df_columns (s' ! df)) = [kw_get kwargs ''title'' (PStr ''sparklines'')] \<and>
           df_index (s' ! df) = df_index (s ! dataframe)"
proof -
  let ?title = "kw_get kwargs ''title'' (PStr ''sparklines'')"
  obtain src imgs sel where src: "getitem (s ! dataframe) data = Inr src"
    and imgs: "series_map (\<lambda>x. call_sparkline png_base64 x
                 (kw_get kwargs ''figsize'' (PTuple [4, 1 / 4])) kwargs) src = Inr imgs"
    and sel: "getitem_list (setitem (s ! dataframe) ?title (map (\<lambda>h. Scalar (Str h)) imgs))
                [?title] = Inr sel"
    and r: "r = Some (Suc (length s))"
    and s': "s' = s @ [setitem (s ! dataframe) ?title (map (\<lambda>h. Scalar (Str h)) imgs), sel]"
    using create_copy_Inr [OF assms] by auto
  have at: "s' ! Suc (length s) = sel"
    by (simp add: s' nth_append)
  have cols: "df_columns sel = [(?title, map (\<lambda>h. Scalar (Str h)) imgs)]"
    and idx: "df_index sel = df_index (s ! dataframe)"
    using sel by (auto simp: getitem_list_single)
  have "Suc (length s) < length s'"
    by (simp add: s')
  then show ?thesis
    using r src series_map_Inr [OF imgs] cols idx at by auto
qed

theorem create_copy_no_columns_witness:
  "fst (create example_png [example_frame] 0 (PStr ''data'') (PBool False) (PStr ''sparklines'')
          True ColumnsNone []) = Inr (Some 2) \<and>
   getitem ([example_frame] ! 0) (PStr ''data'') =
     Inr [Seq [Num 1, Num 2, Num 3, Num 2, Num 1], Seq [Num 5, Num 4], Seq [Num 2, Num 2, Num 7]] \<and>
   df_columns (snd (create example_png [example_frame] 0 (PStr ''data'') (PBool False)
                      (PStr ''sparklines'') True ColumnsNone []) ! 2) =
     [(PStr ''sparklines'', replicate 3 (Scalar (Str (img_tag ''iVBORw0KGgo=''))))] \<and>
   map fst (df_columns (snd (create example_png [example_frame] 0 (PStr ''data'') (PBool False)
                               (PStr ''sparklines'') True ColumnsNone []) ! 2)) =
     [PStr ''sparklines''] \<and>
   df_index (snd (create example_png [example_frame] 0 (PStr ''data'') (PBool False)
                    (PStr ''sparklines'') True ColumnsNone []) ! 2) =
     [PNum 0, PNum 1, PNum 2]"
  using create_copy_no_columns [OF example_copy_none_eval]
  unfolding example_copy_none_eval
  by (simp add: getitem_def example_frame_def)

text \<open>
  C1. The claim: a \<^verbatim>\<open>figsize\<close> or \<^verbatim>\<open>title\<close> given among the options of a call is the one
  used for rendering and for the name of the destination column. The code uses
  neither. Both keywords are bound to the parameters of these names, so the body's
  \<open>kwargs\<close> never holds them, and the body overwrites both parameters with
  \<open>(4, 0.25)\<close> and \<^verbatim>\<open>'sparklines'\<close> before it reads them: the call on the example
  dataframe with \<^verbatim>\<open>figsize=(2, 0.5), title='trend'\<close> renders every row at the size
  \<open>(4, 0.25)\<close> and stores the result in the column \<^verbatim>\<open>sparklines\<close>, and any call does
  what the same call without the two keywords does.
\<close>

theorem create_discards_title_and_figsize:
  "call_create figsize_png [example_frame] 0 (PStr ''data'') False ColumnsNone
     [(''figsize'', PTuple [2, 1 / 2]), (''title'', PStr ''trend'')] =
   (Inr None,
    [example_frame\<lparr>df_columns := df_columns example_frame @
        [(PStr ''sparklines'', replicate 3 (Scalar (Str (img_tag ''4x0.25''))))]\<rparr>]) \<and>
   call_create png_base64 s dataframe data copy columns keywords =
     call_create png_base64 s dataframe data copy columns
       (keyword_rest [''figsize'', ''title''] keywords) \<and>
   kw_get (keyword_rest create_params keywords) ''title'' (PStr ''sparklines'') =
     PStr ''sparklines'' \<and>
   kw_get (keyword_rest create_params keywords) ''figsize'' (PTuple [4, 1 / 4]) =
     PTuple [4, 1 / 4]"
proof -
  have ev: "call_create figsize_png [example_frame] 0 (PStr ''data'') False ColumnsNone
       [(''figsize'', PTuple [2, 1 / 2]), (''title'', PStr ''trend'')] =
     (Inr None,
      [example_frame\<lparr>df_columns := df_columns example_frame @
          [(PStr ''sparklines'', replicate 3 (Scalar (Str (img_tag ''4x0.25''))))]\<rparr>])"
    by (simp add: call_create_def keyword_rest_def create_params_def create_def getitem_def
          setitem_def figsize_render_row example_frame_def Let_def numeral_3_eq_3)
  have r: "keyword_rest create_params (keyword_rest [''figsize'', ''title''] keywords) =
           keyword_rest create_params keywords"
    by (rule keyword_rest_twice) (simp add: create_params_def)
  have ind: "call_create png_base64 s dataframe data copy columns keywords =
     call_create png_base64 s dataframe data copy columns
       (keyword_rest [''figsize'', ''title''] keywords)"
    unfolding call_create_def r
    using create_parameters_unread
    by (simp add: map_of_keyword_rest)
  have k: "kw_get (keyword_rest create_params keywords) ''title'' (PStr ''sparklines'') =
             PStr ''sparklines'' \<and>
           kw_get (keyword_rest create_params keywords) ''figsize'' (PTuple [4, 1 / 4]) =
             PTuple [4, 1 / 4]"
    by (simp add: kw_get_def map_of_keyword_rest create_params_def)
  from ev ind k show ?thesis by simp
qed

section \<open>Properties of the presenter\<close>

text \<open>
  C2, as stated, fails: \<^verbatim>\<open>column_reset\<close> resets the two limits to pandas' defaults, it
  does not restore what they were. With \<^verbatim>\<open>display.max_colwidth\<close> set to 200 before the
  call and a dataframe of no rows, the limit is 50 after \<^verbatim>\<open>show\<close> and after
  \<^verbatim>\<open>to_html\<close>.
\<close>

theorem presenter_restore_counterexample:
  "fst (show_dataframe example_defaults example_render example_env empty_frame False) = Inr () \<and>
   options example_env ''display.max_colwidth'' = PNum 200 \<and>
   options (snd (show_dataframe example_defaults example_render example_env empty_frame False))
     ''display.max_colwidth'' = PNum 50 \<and>
   fst (to_html example_defaults example_render (\<lambda>name. True) example_env empty_frame
          ''table'' []) = Inr () \<and>
   options (snd (to_html example_defaults example_render (\<lambda>name. True) example_env empty_frame
                   ''table'' [])) ''display.max_colwidth'' = PNum 50"
  by (simp add: show_dataframe_def to_html_def example_render_def example_env_def
        example_defaults_def column_reset_def column_sparklines_def set_option_def
        reset_option_def Let_def)

text \<open>
  C2, amended. After \<^verbatim>\<open>show\<close> or \<^verbatim>\<open>to_html\<close> has returned, both display limits hold
  pandas' default values, whatever they were before the call, and every other option
  is what it was; so a limit has its former value exactly when that value was the
  default.
\<close>

theorem presenter_resets_to_defaults:
  "(show_dataframe defaults frame_to_html w dataframe index = (Inr u, w') \<longrightarrow>
      options w' =
        (options w)(''display.max_colwidth'' := defaults ''display.max_colwidth'',
                    ''display.max_seq_items'' := defaults ''display.max_seq_items'')) \<and>
   (to_html defaults frame_to_html writable w dataframe filename kwargs = (Inr u, w'') \<longrightarrow>
      options w'' =
        (options w)(''display.max_colwidth'' := defaults ''display.max_colwidth'',
                    ''display.max_seq_items'' := defaults ''display.max_seq_items''))"
  by (auto simp: show_dataframe_def to_html_def column_reset_def column_sparklines_def
        set_option_def reset_option_def Let_def fun_eq_iff split: sum.splits if_splits)

theorem presenter_resets_to_defaults_witness:
  "fst (show_dataframe example_defaults example_render example_env empty_frame False) = Inr () \<and>
   options (snd (show_dataframe example_defaults example_render example_env empty_frame False))
     ''display.max_colwidth'' = PNum 50 \<and>
   options (snd (show_dataframe example_defaults example_render example_env empty_frame False))
     ''display.max_seq_items'' = PNum 100 \<and>
   fst (to_html example_defaults example_render (\<lambda>name. True) example_env empty_frame
          ''table'' []) = Inr () \<and>
   options (snd (to_html example_defaults example_render (\<lambda>name. True) example_env empty_frame
                   ''table'' [])) ''display.max_colwidth'' = PNum 50 \<and>
   options (snd (to_html example_defaults example_render (\<lambda>name. True) example_env empty_frame
                   ''table'' [])) ''display.max_seq_items'' = PNum 100"
proof -
  let ?a = "show_dataframe example_defaults example_render example_env empty_frame False"
  let ?b = "to_html example_defaults example_render (\<lambda>name. True) example_env empty_frame
              ''table'' []"
  have a: "fst ?a = Inr ()"
    by (simp add: show_dataframe_def example_render_def Let_def)
  have b: "fst ?b = Inr ()"
    by (simp add: to_html_def example_render_def Let_def)
  have a': "?a = (Inr (), snd ?a)"
    using a by (simp add: prod_eq_iff)
  have b': "?b = (Inr (), snd ?b)"
    using b by (simp add: prod_eq_iff)
  show ?thesis
    using a b
      presenter_resets_to_defaults [of example_defaults example_render example_env empty_frame
        False "()" "snd ?a" "\<lambda>name. True" "''table''" "[]" "snd ?b"]
      a' b'
    by (simp add: example_defaults_def)
qed

text \<open>
  C9. A call of \<^verbatim>\<open>to_html\<close> that returns has written one file, named by the given path
  with \<^verbatim>\<open>.html\<close> appended. Its content, whatever the file held before, is
  \<open>html_head\<close> (the doctype, the head with the stylesheet \<open>jupyter_table_css\<close> inline,
  the opening of the body), then the table as pandas renders it with \<^verbatim>\<open>escape=False\<close>
  under the widened limits, then \<open>html_tail\<close>. Nothing is displayed.
\<close>

theorem to_html_file:
  assumes "to_html defaults frame_to_html writable w dataframe filename kwargs = (Inr u, w')"
  shows "\<exists>a. frame_to_html (column_sparklines (options w)) dataframe True False = Inr a \<and>
             files w' = (files w)(filename @ ''.html'' \<mapsto> html_head @ a @ html_tail) \<and>
             displayed w' = displayed w \<and>
             html_head =
               ''<!DOCTYPE html>'' @ nl @ ''            <html>'' @ nl @
               ''            <head>'' @ nl @ ''            <style>'' @ jupyter_table_css @
               ''</style>'' @ nl @ ''            </head>'' @ nl @ ''            <body>'' \<and>
             html_tail = ''</body>'' @ nl @ ''               </html>''"
  using assms
  by (auto simp: to_html_def file_open_w_def file_write_def Let_def html_head_def html_tail_def
        split: sum.splits if_splits)

theorem to_html_file_witness:
  "fst (to_html example_defaults example_render (\<lambda>name. True) example_env example_frame
          ''table'' []) = Inr () \<and>
   files (snd (to_html example_defaults example_render (\<lambda>name. True) example_env example_frame
                 ''table'' [])) ''table.html'' =
     Some (html_head @ ''<table></table>'' @ html_tail)"
proof -
  let ?b = "to_html example_defaults example_render (\<lambda>name. True) example_env example_frame
              ''table'' []"
  have b: "fst ?b = Inr ()"
    by (simp add: to_html_def example_render_def Let_def)
  have b': "?b = (Inr (), snd ?b)"
    using b by (simp add: prod_eq_iff)
  show ?thesis
    using b to_html_file [OF b'] by (auto simp: example_render_def)
qed

end
